theory Spec2Isabelle
  imports Main "HOL-Library.Sublist"
begin

section \<open>Python values used by both modules\<close>

subsection \<open>Characters and the text of numbers\<close>

definition backslash :: char where
  "backslash = CHR 0x5C"

definition squote :: char where
  "squote = CHR 0x27"

definition dquote :: char where
  "dquote = CHR 0x22"

definition digit_char :: "nat \<Rightarrow> char" where
  "digit_char n = ''0123456789abcdef'' ! (n mod 16)"

text \<open>\<open>str(n)\<close> for a natural number, in decimal.\<close>

fun show_nat :: "nat \<Rightarrow> string" where
  "show_nat n = (if n < 10 then [digit_char n] else show_nat (n div 10) @ [digit_char (n mod 10)])"

declare show_nat.simps [simp del]

text \<open>
  \<open>repr(s)\<close> for a \<open>str\<close>, which the \<open>!r\<close> conversion of an f-string calls. A \<open>char\<close>
  stands for the code point of the same number (below 256). The quote is the single
  quote unless the string has a single quote and no double quote; the quote in use and
  the backslash are escaped, tab, newline and carriage return get their letter, the
  other code points that Python does not count as printable are written \<open>\xhh\<close>.
\<close>

definition needs_hex :: "char \<Rightarrow> bool" where
  "needs_hex c = (let n = (of_char c :: nat) in
     n < 32 \<or> n = 127 \<or> (128 \<le> n \<and> n \<le> 160) \<or> n = 173)"

definition repr_char :: "char \<Rightarrow> char \<Rightarrow> string" where
  "repr_char q c =
     (if c = q \<or> c = backslash then [backslash, c]
      else if c = CHR 0x09 then [backslash, CHR ''t'']
      else if c = CHR 0x0A then [backslash, CHR ''n'']
      else if c = CHR 0x0D then [backslash, CHR ''r'']
      else if needs_hex c then
        [backslash, CHR ''x'', digit_char (of_char c div 16), digit_char (of_char c mod 16)]
      else [c])"

definition repr_quote :: "string \<Rightarrow> char" where
  "repr_quote s = (if squote \<in> set s \<and> dquote \<notin> set s then dquote else squote)"

definition py_repr :: "string \<Rightarrow> string" where
  "py_repr s = (let q = repr_quote s in q # concat (map (repr_char q) s) @ [q])"

text \<open>The characters that \<open>repr\<close> copies unchanged when the quote is \<open>q\<close>.\<close>

definition repr_plain :: "char \<Rightarrow> char \<Rightarrow> bool" where
  "repr_plain q c = (c \<noteq> q \<and> c \<noteq> backslash \<and> \<not> needs_hex c)"

subsection \<open>Exceptions and tracebacks\<close>

text \<open>
  The exception classes the two modules name or can meet, with Python's hierarchy.
  \<open>IOError\<close> is an alias of \<open>OSError\<close>. \<open>Custom n b\<close> is a class named \<open>n\<close> declared
  elsewhere with the single base \<open>b\<close>.
\<close>

datatype exc_class =
    BaseException
  | Exception
  | KeyboardInterrupt
  | SystemExit
  | OSError
  | RuntimeError
  | NotImplementedError
  | ValueError
  | Custom string exc_class

abbreviation IOError :: exc_class where
  "IOError \<equiv> OSError"

fun exc_mro :: "exc_class \<Rightarrow> exc_class list" where
  "exc_mro BaseException = [BaseException]"
| "exc_mro Exception = [Exception, BaseException]"
| "exc_mro KeyboardInterrupt = [KeyboardInterrupt, BaseException]"
| "exc_mro SystemExit = [SystemExit, BaseException]"
| "exc_mro OSError = [OSError, Exception, BaseException]"
| "exc_mro RuntimeError = [RuntimeError, Exception, BaseException]"
| "exc_mro NotImplementedError = [NotImplementedError, RuntimeError, Exception, BaseException]"
| "exc_mro ValueError = [ValueError, Exception, BaseException]"
| "exc_mro (Custom n b) = Custom n b # exc_mro b"

fun exc_name :: "exc_class \<Rightarrow> string" where
  "exc_name BaseException = ''BaseException''"
| "exc_name Exception = ''Exception''"
| "exc_name KeyboardInterrupt = ''KeyboardInterrupt''"
| "exc_name SystemExit = ''SystemExit''"
| "exc_name OSError = ''OSError''"
| "exc_name RuntimeError = ''RuntimeError''"
| "exc_name NotImplementedError = ''NotImplementedError''"
| "exc_name ValueError = ''ValueError''"
| "exc_name (Custom n b) = n"

text \<open>An exception object: its class and its message (\<open>str(e)\<close>).\<close>

record exn =
  etype :: exc_class
  emsg :: string

definition isinstance :: "exn \<Rightarrow> exc_class \<Rightarrow> bool" where
  "isinstance e c = (c \<in> set (exc_mro (etype e)))"

text \<open>One entry of a traceback: file, line, function.\<close>

datatype frame = Frame string nat string

type_synonym traceback = "frame list"

text \<open>
  An exception in flight: the object and the traceback it has gathered so far, outermost
  frame first. A call that can raise returns \<open>raised + 'a\<close>.
\<close>

type_synonym raised = "exn \<times> traceback"

text \<open>
  An exception that reaches a Python frame, whether it is caught there or passes
  through, gets an entry for that frame in front of its traceback.
\<close>

definition reach :: "frame \<Rightarrow> raised \<Rightarrow> raised" where
  "reach fr r = (fst r, fr # snd r)"

text \<open>
  \<open>traceback.format_exc()\<close>: the text of the exception being handled
  (\<open>sys.exc_info()\<close>), or of none. The source line that Python prints under each
  entry when it can read the file is left out.
\<close>

definition format_frame :: "frame \<Rightarrow> string" where
  "format_frame fr = (case fr of Frame file line name \<Rightarrow>
     ''  File '' @ [dquote] @ file @ [dquote] @ '', line '' @ show_nat line @ '', in '' @ name
       @ ''\<newline>'')"

definition format_exc :: "raised option \<Rightarrow> string" where
  "format_exc info = (case info of
       None \<Rightarrow> ''NoneType: None\<newline>''
     | Some (e, tb) \<Rightarrow>
         (if tb = [] then [] else ''Traceback (most recent call last):\<newline>'')
         @ concat (map format_frame tb)
         @ exc_name (etype e) @ (if emsg e = [] then [] else '': '' @ emsg e) @ ''\<newline>'')"

section \<open>Meta segments (\<open>core/parser/segments/meta.py\<close>)\<close>

text \<open>The four classes of the module; \<open>MetaSegment\<close> derives from \<open>RawSegment\<close>.\<close>

datatype seg_class = MetaSegment | Indent | Dedent | TemplateSegment

text \<open>The base named in each class statement, when it is a class of this module.\<close>

fun seg_base :: "seg_class \<Rightarrow> seg_class option" where
  "seg_base MetaSegment = None"
| "seg_base Indent = Some MetaSegment"
| "seg_base Dedent = Some Indent"
| "seg_base TemplateSegment = Some MetaSegment"

text \<open>The method resolution order within the module: the class, then its base's.\<close>

fun seg_mro :: "seg_class \<Rightarrow> seg_class list" where
  "seg_mro MetaSegment = [MetaSegment]"
| "seg_mro Indent = [Indent, MetaSegment]"
| "seg_mro Dedent = [Dedent, Indent, MetaSegment]"
| "seg_mro TemplateSegment = [TemplateSegment, MetaSegment]"

fun seg_name :: "seg_class \<Rightarrow> string" where
  "seg_name MetaSegment = ''MetaSegment''"
| "seg_name Indent = ''Indent''"
| "seg_name Dedent = ''Dedent''"
| "seg_name TemplateSegment = ''TemplateSegment''"

text \<open>The attributes each class body assigns itself.\<close>

fun own_type :: "seg_class \<Rightarrow> string option" where
  "own_type MetaSegment = Some ''meta''"
| "own_type Indent = Some ''indent''"
| "own_type Dedent = Some ''dedent''"
| "own_type TemplateSegment = Some ''placeholder''"

fun own_indent_val :: "seg_class \<Rightarrow> int option" where
  "own_indent_val MetaSegment = Some 0"
| "own_indent_val Indent = Some 1"
| "own_indent_val Dedent = Some (- 1)"
| "own_indent_val TemplateSegment = None"

fun own_is_meta :: "seg_class \<Rightarrow> bool option" where
  "own_is_meta MetaSegment = Some True"
| "own_is_meta c = None"

fun own_is_code :: "seg_class \<Rightarrow> bool option" where
  "own_is_code MetaSegment = Some False"
| "own_is_code c = None"

fun own_template :: "seg_class \<Rightarrow> string option" where
  "own_template MetaSegment = Some ''<unset>''"
| "own_template c = None"

text \<open>Attribute lookup on a class: the first class of the order that assigns it.\<close>

fun first_some :: "('a \<Rightarrow> 'b option) \<Rightarrow> 'a list \<Rightarrow> 'b option" where
  "first_some f [] = None"
| "first_some f (x # xs) = (case f x of Some v \<Rightarrow> Some v | None \<Rightarrow> first_some f xs)"

definition class_attr :: "(seg_class \<Rightarrow> 'b option) \<Rightarrow> seg_class \<Rightarrow> 'b option" where
  "class_attr own c = first_some own (seg_mro c)"

text \<open>
  A segment object. \<open>TemplateSegment\<close> adds two fields of its own to those every
  segment has.
\<close>

record 'p segment =
  seg_cls :: seg_class
  pos_marker :: "'p option"
  raw :: string

record 'p template_segment = "'p segment" +
  source_str :: string
  block_type :: string

definition seg_isinstance :: "('p, 'z) segment_scheme \<Rightarrow> seg_class \<Rightarrow> bool" where
  "seg_isinstance s c = (c \<in> set (seg_mro (seg_cls s)))"

definition seg_type :: "('p, 'z) segment_scheme \<Rightarrow> string option" where
  "seg_type s = class_attr own_type (seg_cls s)"

definition indent_val :: "('p, 'z) segment_scheme \<Rightarrow> int option" where
  "indent_val s = class_attr own_indent_val (seg_cls s)"

definition is_meta :: "('p, 'z) segment_scheme \<Rightarrow> bool option" where
  "is_meta s = class_attr own_is_meta (seg_cls s)"

definition is_code :: "('p, 'z) segment_scheme \<Rightarrow> bool option" where
  "is_code s = class_attr own_is_code (seg_cls s)"

definition template :: "('p, 'z) segment_scheme \<Rightarrow> string option" where
  "template s = class_attr own_template (seg_cls s)"

text \<open>
  Modelled from the spec: \<open>RawSegment.__init__\<close>, of
  \<open>sqlfluff/core/parser/segments/raw.py\<close>, which is not among the sources. None of
  \<open>MetaSegment\<close>, \<open>Indent\<close> and \<open>Dedent\<close> defines \<open>__init__\<close>, and
  \<open>TemplateSegment.__init__\<close> ends by calling it with the position marker alone. The
  specification: "Indent/Dedent require only a position marker" and "meta segments always
  have empty literal text".
\<close>

definition RawSegment_init :: "seg_class \<Rightarrow> 'p option \<Rightarrow> 'p segment" where
  "RawSegment_init c pm = \<lparr>seg_cls = c, pos_marker = pm, raw = []\<rparr>"

definition new_Indent :: "'p option \<Rightarrow> 'p segment" where
  "new_Indent pm = RawSegment_init Indent pm"

definition new_Dedent :: "'p option \<Rightarrow> 'p segment" where
  "new_Dedent pm = RawSegment_init Dedent pm"

definition new_MetaSegment :: "'p option \<Rightarrow> 'p segment" where
  "new_MetaSegment pm = RawSegment_init MetaSegment pm"

text \<open>
  \<open>TemplateSegment.__init__(pos_marker, source_str, block_type)\<close>. \<open>not source_str\<close>
  holds of the empty string.
\<close>

definition TemplateSegment_init ::
  "'p option \<Rightarrow> string \<Rightarrow> string \<Rightarrow> raised + 'p template_segment" where
  "TemplateSegment_init pm src bt =
     (if src = [] then
        Inl (\<lparr>etype = ValueError,
               emsg = ''Cannot instantiate TemplateSegment without a source_str.''\<rparr>,
             [Frame ''meta.py'' 83 ''__init__''])
      else
        Inr (segment.extend (RawSegment_init TemplateSegment pm)
               (template_segment.fields src bt)))"

text \<open>The keyword arguments left out take their defaults, both the empty string.\<close>

definition new_TemplateSegment ::
  "'p option \<Rightarrow> string option \<Rightarrow> string option \<Rightarrow> raised + 'p template_segment" where
  "new_TemplateSegment pm src bt =
     TemplateSegment_init pm (case src of None \<Rightarrow> [] | Some s \<Rightarrow> s)
       (case bt of None \<Rightarrow> [] | Some b \<Rightarrow> b)"

text \<open>\<open>MetaSegment._suffix\<close> and its override \<open>TemplateSegment._suffix\<close>.\<close>

definition MetaSegment_suffix :: string where
  "MetaSegment_suffix = []"

definition TemplateSegment_suffix :: "'p template_segment \<Rightarrow> string" where
  "TemplateSegment_suffix s =
     ''[Type: '' @ py_repr (block_type s) @ '', Raw: '' @ py_repr (source_str s) @ '']''"

text \<open>
  Modelled from the spec: the decorator \<open>match_wrapper\<close>, of
  \<open>sqlfluff/core/parser/match_wrapper.py\<close>, which is not among the sources. The
  specification has the call of \<open>match\<close> on a meta segment "fail immediately", so the
  wrapper hands on what the method it wraps returns or raises.
\<close>

definition match_wrapper ::
  "(seg_class \<Rightarrow> 's \<Rightarrow> 'c \<Rightarrow> raised + 'm) \<Rightarrow> seg_class \<Rightarrow> 's \<Rightarrow> 'c \<Rightarrow> raised + 'm" where
  "match_wrapper func = (\<lambda>cls segments parse_context. func cls segments parse_context)"

text \<open>
  The body of \<open>MetaSegment.match\<close>, a class method that the three other classes
  inherit: \<open>cls\<close> is the class it is called on. \<open>'m\<close> is what a match returns when it
  returns, a no-match included.
\<close>

definition match_body :: "seg_class \<Rightarrow> 's \<Rightarrow> 'c \<Rightarrow> raised + 'm" where
  "match_body cls segments parse_context =
     Inl (\<lparr>etype = NotImplementedError,
            emsg = seg_name cls @ '' has no match method, it should only be used in a Sequence!''\<rparr>,
          [Frame ''meta.py'' 28 ''match''])"

definition match :: "seg_class \<Rightarrow> 's \<Rightarrow> 'c \<Rightarrow> raised + 'm" where
  "match = match_wrapper match_body"

section \<open>Runners (\<open>core/linter/runner.py\<close>)\<close>

subsection \<open>The linter, its results and the work units\<close>

text \<open>What the runner reads of a linted file, and of a rendered file.\<close>

record linted_file =
  path :: string
  violations :: "string list"

record 'c rendered_file =
  config :: 'c
  templated :: string

text \<open>
  The linter a runner holds: the three methods the runner calls on it, each of which can
  raise, and its \<open>formatter\<close> attribute, which may be \<open>None\<close>. \<open>'c\<close> is a configuration,
  \<open>'s\<close> a rule set, \<open>'f\<close> a formatter.
\<close>

record ('c, 's, 'f) linter =
  render_file :: "string \<Rightarrow> 'c \<Rightarrow> raised + 'c rendered_file"
  get_ruleset :: "'c \<Rightarrow> raised + 's"
  lint_rendered :: "'c rendered_file \<Rightarrow> 's \<Rightarrow> bool \<Rightarrow> 'f option \<Rightarrow> raised + linted_file"
  formatter :: "'f option"

text \<open>
  A work unit's deferred computation: \<open>functools.partial(self.linter.lint_rendered,
  rendered, rule_set, fix, formatter)\<close>, kept as the four arguments it binds.
\<close>

record ('c, 's, 'f) partial =
  p_rendered :: "'c rendered_file"
  p_rule_set :: 's
  p_fix :: bool
  p_formatter :: "'f option"

definition call_partial :: "('c, 's, 'f) linter \<Rightarrow> ('c, 's, 'f) partial \<Rightarrow> raised + linted_file" where
  "call_partial L p = lint_rendered L (p_rendered p) (p_rule_set p) (p_fix p) (p_formatter p)"

subsection \<open>The runner classes\<close>

datatype runner_class =
  BaseRunner | SequentialRunner | ParallelRunner | MultiProcessRunner | MultiThreadRunner

fun runner_base :: "runner_class \<Rightarrow> runner_class option" where
  "runner_base BaseRunner = None"
| "runner_base SequentialRunner = Some BaseRunner"
| "runner_base ParallelRunner = Some BaseRunner"
| "runner_base MultiProcessRunner = Some ParallelRunner"
| "runner_base MultiThreadRunner = Some ParallelRunner"

fun runner_mro :: "runner_class \<Rightarrow> runner_class list" where
  "runner_mro BaseRunner = [BaseRunner]"
| "runner_mro SequentialRunner = [SequentialRunner, BaseRunner]"
| "runner_mro ParallelRunner = [ParallelRunner, BaseRunner]"
| "runner_mro MultiProcessRunner = [MultiProcessRunner, ParallelRunner, BaseRunner]"
| "runner_mro MultiThreadRunner = [MultiThreadRunner, ParallelRunner, BaseRunner]"

fun runner_name :: "runner_class \<Rightarrow> string" where
  "runner_name BaseRunner = ''BaseRunner''"
| "runner_name SequentialRunner = ''SequentialRunner''"
| "runner_name ParallelRunner = ''ParallelRunner''"
| "runner_name MultiProcessRunner = ''MultiProcessRunner''"
| "runner_name MultiThreadRunner = ''MultiThreadRunner''"

text \<open>\<open>pass_formatter\<close> is assigned in two class bodies and inherited by the others.\<close>

fun own_pass_formatter :: "runner_class \<Rightarrow> bool option" where
  "own_pass_formatter BaseRunner = Some True"
| "own_pass_formatter ParallelRunner = Some False"
| "own_pass_formatter c = None"

definition pass_formatter :: "runner_class \<Rightarrow> bool option" where
  "pass_formatter c = first_some own_pass_formatter (runner_mro c)"

text \<open>\<open>MAP_FUNCTION_NAME\<close>, assigned by the two concrete parallel classes.\<close>

fun own_MAP_FUNCTION_NAME :: "runner_class \<Rightarrow> string option" where
  "own_MAP_FUNCTION_NAME MultiProcessRunner = Some ''imap_unordered''"
| "own_MAP_FUNCTION_NAME MultiThreadRunner = Some ''imap''"
| "own_MAP_FUNCTION_NAME c = None"

text \<open>
  A runner object: its class and what \<open>__init__\<close> stores. \<open>BaseRunner.__init__\<close> stores
  the linter and the configuration, \<open>ParallelRunner.__init__\<close> the \<open>parallel\<close> count too.
\<close>

record ('c, 's, 'f) runner =
  r_cls :: runner_class
  r_linter :: "('c, 's, 'f) linter"
  r_config :: 'c
  r_parallel :: "int option"

definition BaseRunner_init :: "runner_class \<Rightarrow> ('c, 's, 'f) linter \<Rightarrow> 'c \<Rightarrow> ('c, 's, 'f) runner" where
  "BaseRunner_init c L cfg = \<lparr>r_cls = c, r_linter = L, r_config = cfg, r_parallel = None\<rparr>"

definition ParallelRunner_init ::
  "runner_class \<Rightarrow> ('c, 's, 'f) linter \<Rightarrow> 'c \<Rightarrow> int \<Rightarrow> ('c, 's, 'f) runner" where
  "ParallelRunner_init c L cfg n = (BaseRunner_init c L cfg)\<lparr>r_parallel := Some n\<rparr>"

subsection \<open>What a run does\<close>

text \<open>
  The visible steps of a run, in the order they happen: a result yielded to the caller,
  a warning sent to the linter's logger, a line printed, a result handed to the
  formatter's \<open>dispatch_file_violations\<close>, the call of \<open>pool.terminate()\<close>, and the
  pool's creation and the exit of its \<open>with\<close> block.
\<close>

datatype 'f effect =
    Yield linted_file
  | LogWarning string
  | Print string
  | Dispatch 'f string linted_file bool
  | PoolTerminate
  | PoolCreate int
  | PoolExit

text \<open>
  A run seen from its caller, once the caller has taken every result: the steps, and the
  exception that left \<open>run\<close>, if one did.
\<close>

type_synonym 'f outcome = "'f effect list \<times> raised option"

fun yielded :: "'f effect list \<Rightarrow> linted_file list" where
  "yielded [] = []"
| "yielded (Yield r # es) = r # yielded es"
| "yielded (e # es) = yielded es"

fun warnings :: "'f effect list \<Rightarrow> string list" where
  "warnings [] = []"
| "warnings (LogWarning w # es) = w # warnings es"
| "warnings (e # es) = warnings es"

subsection \<open>\<open>BaseRunner\<close>\<close>

text \<open>
  One turn of the generators \<open>iter_rendered\<close> and \<open>iter_partials\<close>, for one file name:
  render the file, get a fresh rule set for the rendered file's configuration, bind the
  deferred computation. An exception of either call leaves both generators.
\<close>

definition iter_rendered_step ::
  "('c, 's, 'f) runner \<Rightarrow> string \<Rightarrow> raised + (string \<times> 'c rendered_file)" where
  "iter_rendered_step R f =
     (case render_file (r_linter R) f (r_config R) of
        Inl r \<Rightarrow> Inl (reach (Frame ''runner.py'' 38 ''iter_rendered'') r)
      | Inr rendered \<Rightarrow> Inr (f, rendered))"

definition iter_partials_step ::
  "('c, 's, 'f) runner \<Rightarrow> bool \<Rightarrow> string \<Rightarrow> raised + (string \<times> ('c, 's, 'f) partial)" where
  "iter_partials_step R fix f =
     (case iter_rendered_step R f of
        Inl r \<Rightarrow> Inl (reach (Frame ''runner.py'' 45 ''iter_partials'') r)
      | Inr (f', rendered) \<Rightarrow>
          (case get_ruleset (r_linter R) (config rendered) of
             Inl r \<Rightarrow> Inl (reach (Frame ''runner.py'' 47 ''iter_partials'') r)
           | Inr rule_set \<Rightarrow>
               Inr (f', \<lparr>p_rendered = rendered, p_rule_set = rule_set, p_fix = fix,
                         p_formatter = (if pass_formatter (r_cls R) = Some True
                                        then formatter (r_linter R) else None)\<rparr>)))"

text \<open>
  The whole generator: the work units in the order of the file names, up to the first
  exception, which ends it.
\<close>

fun iter_partials ::
  "('c, 's, 'f) runner \<Rightarrow> string list \<Rightarrow> bool \<Rightarrow> (raised + (string \<times> ('c, 's, 'f) partial)) list" where
  "iter_partials R [] fix = []"
| "iter_partials R (f # fs) fix =
     (case iter_partials_step R fix f of
        Inl r \<Rightarrow> [Inl r]
      | Inr u \<Rightarrow> Inr u # iter_partials R fs fix)"

text \<open>\<open>f"{fname}"\<close> for a file name that may be \<open>None\<close>.\<close>

definition format_fname :: "string option \<Rightarrow> string" where
  "format_fname fo = (case fo of None \<Rightarrow> ''None'' | Some f \<Rightarrow> f)"

definition lint_warning :: "string option \<Rightarrow> raised option \<Rightarrow> string" where
  "lint_warning fo info =
     ''Unable to lint '' @ format_fname fo @ '' due to an internal error. ''
     @ ''Please report this as an issue with your query's contents and stacktrace below!\<newline>''
     @ ''To hide this warning, add the failing file to .sqlfluffignore\<newline>''
     @ format_exc info"

text \<open>
  \<open>_handle_lint_path_exception(fname, e)\<close>. Both callers are inside the \<open>except\<close> clause
  that caught \<open>e\<close>, so the exception \<open>traceback.format_exc()\<close> describes is \<open>e\<close> with the
  traceback it was caught with: the argument \<open>r\<close> is that pair.
\<close>

definition handle_lint_path_exception :: "string option \<Rightarrow> raised \<Rightarrow> raised + 'f effect" where
  "handle_lint_path_exception fo r =
     (if isinstance (fst r) IOError then
        Inl (reach (Frame ''runner.py'' 78 ''_handle_lint_path_exception'') r)
      else Inr (LogWarning (lint_warning fo (Some r))))"

subsection \<open>\<open>SequentialRunner\<close>\<close>

text \<open>
  \<open>SequentialRunner.run\<close>: the generator is advanced by one file, then the loop body
  runs. \<open>except Exception\<close> catches instances of \<open>Exception\<close> only.
\<close>

fun SequentialRunner_run :: "('c, 's, 'f) runner \<Rightarrow> string list \<Rightarrow> bool \<Rightarrow> 'f outcome" where
  "SequentialRunner_run R [] fix = ([], None)"
| "SequentialRunner_run R (f # fs) fix =
     (case iter_partials_step R fix f of
        Inl r \<Rightarrow> ([], Some (reach (Frame ''runner.py'' 92 ''run'') r))
      | Inr (f', p) \<Rightarrow>
          (case call_partial (r_linter R) p of
             Inr res \<Rightarrow>
               (case SequentialRunner_run R fs fix of (t, x) \<Rightarrow> (Yield res # t, x))
           | Inl r0 \<Rightarrow>
               (let r = reach (Frame ''runner.py'' 94 ''run'') r0 in
                if isinstance (fst r) Exception then
                  (case handle_lint_path_exception (Some f') r of
                     Inl r' \<Rightarrow> ([], Some (reach (Frame ''runner.py'' 96 ''run'') r'))
                   | Inr w \<Rightarrow>
                       (case SequentialRunner_run R fs fix of (t, x) \<Rightarrow> (w # t, x)))
                else ([], Some r))))"

subsection \<open>\<open>DelayedException\<close>\<close>

text \<open>
  The envelope: the wrapped exception, the traceback taken from \<open>sys.exc_info()\<close>
  (\<open>None\<close> when no exception is being handled), the file name, and the message given to
  \<open>Exception.__init__\<close>.
\<close>

record delayed_exception =
  ee :: exn
  tb :: "traceback option"
  fname :: "string option"
  args :: string

text \<open>
  \<open>DelayedException.__init__(ee, fname)\<close>, with the exception being handled when it is
  called. Line 204 assigns \<open>None\<close> to \<open>self.fname\<close>, whatever the argument.
\<close>

definition DelayedException_init :: "exn \<Rightarrow> string option \<Rightarrow> raised option \<Rightarrow> delayed_exception" where
  "DelayedException_init e fname_arg exc_info =
     \<lparr>ee = e, tb = map_option snd exc_info, fname = None, args = emsg e\<rparr>"

text \<open>\<open>reraise\<close>: \<open>raise self.ee.with_traceback(self.tb)\<close>.\<close>

definition reraise :: "delayed_exception \<Rightarrow> raised" where
  "reraise d =
     reach (Frame ''runner.py'' 209 ''reraise'') (ee d, case tb d of None \<Rightarrow> [] | Some t \<Rightarrow> t)"

subsection \<open>\<open>ParallelRunner\<close>\<close>

text \<open>
  \<open>_apply\<close>, which a worker runs on one work unit: the result, or the envelope of the
  \<open>Exception\<close> caught; any other exception leaves it.
\<close>

definition ParallelRunner_apply ::
  "('c, 's, 'f) linter \<Rightarrow> string \<times> ('c, 's, 'f) partial \<Rightarrow> raised + (delayed_exception + linted_file)" where
  "ParallelRunner_apply L partial_tuple =
     (case partial_tuple of (f, p) \<Rightarrow>
        (case call_partial L p of
           Inr res \<Rightarrow> Inr (Inr res)
         | Inl r0 \<Rightarrow>
             (let r = reach (Frame ''runner.py'' 154 ''_apply'') r0 in
              if isinstance (fst r) Exception then
                Inr (Inl (DelayedException_init (fst r) (Some f) (Some r)))
              else Inl r)))"

text \<open>
  What the iterator returned by \<open>_map\<close> gives the controller each time the \<open>for\<close>
  statement asks it for the next value: a value that \<open>_apply\<close> returned, or an exception
  raised in the controller while it waits, such as the \<open>KeyboardInterrupt\<close> of Ctrl-C.
  The pool decides the order and the moments, so a run takes the list as given.
\<close>

datatype pool_event =
    Item "delayed_exception + linted_file"
  | Raise raised

text \<open>The \<open>for\<close> statement of \<open>ParallelRunner.run\<close>, lines 126 to 140.\<close>

fun collect :: "('c, 's, 'f) runner \<Rightarrow> bool \<Rightarrow> pool_event list \<Rightarrow> 'f outcome" where
  "collect R fix [] = ([], None)"
| "collect R fix (Raise r # evs) = ([], Some (reach (Frame ''runner.py'' 126 ''run'') r))"
| "collect R fix (Item (Inl d) # evs) =
     (let r = reach (Frame ''runner.py'' 131 ''run'') (reraise d) in
      if isinstance (fst r) Exception then
        (case handle_lint_path_exception (fname d) r of
           Inl r' \<Rightarrow> ([], Some (reach (Frame ''runner.py'' 133 ''run'') r'))
         | Inr w \<Rightarrow> (case collect R fix evs of (t, x) \<Rightarrow> (w # t, x)))
      else ([], Some r))"
| "collect R fix (Item (Inr res) # evs) =
     (case collect R fix evs of (t, x) \<Rightarrow>
        ((case formatter (r_linter R) of
            Some fm \<Rightarrow> [Dispatch fm (path res) res fix]
          | None \<Rightarrow> [])
         @ Yield res # t, x))"

text \<open>
  The pool constructor \<open>POOL_TYPE(processes, initializer, initargs)\<close>, of
  \<open>multiprocessing\<close>: \<open>multiprocessing.Pool\<close> and \<open>multiprocessing.dummy.Pool\<close> both
  raise \<open>ValueError\<close> when \<open>processes\<close> is below 1. The library's own traceback entries
  are left out.
\<close>

definition POOL_TYPE :: "int \<Rightarrow> raised + unit" where
  "POOL_TYPE processes =
     (if processes < 1 then
        Inl (\<lparr>etype = ValueError, emsg = ''Number of processes must be at least 1''\<rparr>, [])
      else Inr ())"

text \<open>
  \<open>self._create_pool(self.parallel, self._init_global, (self.config,))\<close>: the number of
  workers of the pool created, or the exception raised. A runner object without the
  attribute \<open>parallel\<close> gives an \<open>AttributeError\<close>.
\<close>

definition create_pool :: "('c, 's, 'f) runner \<Rightarrow> raised + int" where
  "create_pool R =
     (case r_parallel R of
        None \<Rightarrow>
          Inl (\<lparr>etype = Custom ''AttributeError'' Exception,
                 emsg = [squote] @ runner_name (r_cls R) @ [squote]
                        @ '' object has no attribute '' @ [squote] @ ''parallel'' @ [squote]\<rparr>, [])
      | Some n \<Rightarrow>
          (case POOL_TYPE n of
             Inl r \<Rightarrow> Inl (reach (Frame ''runner.py'' 162 ''_create_pool'') r)
           | Inr u \<Rightarrow> Inr n))"

text \<open>
  \<open>ParallelRunner.run\<close>: the pool is created, which can raise; then the loop runs inside
  \<open>try\<close>, a \<open>KeyboardInterrupt\<close> that leaves the loop is caught, and the \<open>with\<close> block is
  left.
\<close>

definition ParallelRunner_run :: "('c, 's, 'f) runner \<Rightarrow> bool \<Rightarrow> pool_event list \<Rightarrow> 'f outcome" where
  "ParallelRunner_run R fix evs =
     (case create_pool R of
        Inl r \<Rightarrow> ([], Some (reach (Frame ''runner.py'' 120 ''run'') r))
      | Inr n \<Rightarrow>
          (case collect R fix evs of
             (t, None) \<Rightarrow> (PoolCreate n # t @ [PoolExit], None)
           | (t, Some r) \<Rightarrow>
               (if isinstance (fst r) KeyboardInterrupt then
                  (PoolCreate n # t
                     @ [Print ''Received keyboard interrupt. Cleaning up and shutting down...'',
                        PoolTerminate, PoolExit], None)
                else (PoolCreate n # t @ [PoolExit], Some r))))"

subsection \<open>\<open>get_runner\<close>\<close>

text \<open>
  \<open>sys.version_info >= (3, 7)\<close>, for a version given as (major, minor): tuples compare
  in lexicographic order.
\<close>

definition version_supported :: "nat \<times> nat \<Rightarrow> bool" where
  "version_supported v = (fst v > 3 \<or> (fst v = 3 \<and> snd v \<ge> 7))"

definition unsupported_warning :: "nat \<times> nat \<Rightarrow> string" where
  "unsupported_warning v =
     ''Parallel linting is not supported in Python '' @ show_nat (fst v) @ ''.''
     @ show_nat (snd v) @ ''.''"

text \<open>
  \<open>get_runner(linter, config, parallel, allow_process_parallelism)\<close> under the
  interpreter version \<open>v\<close>: the warnings it logs and the runner it returns. The
  argument \<open>parallel\<close> is written \<open>par\<close>.
\<close>

definition get_runner ::
  "nat \<times> nat \<Rightarrow> ('c, 's, 'f) linter \<Rightarrow> 'c \<Rightarrow> int \<Rightarrow> bool \<Rightarrow> string list \<times> ('c, 's, 'f) runner" where
  "get_runner v L cfg par allow_process_parallelism =
     (if par > 1 \<and> version_supported v then
        (if allow_process_parallelism
         then ([], ParallelRunner_init MultiProcessRunner L cfg par)
         else ([], ParallelRunner_init MultiThreadRunner L cfg par))
      else
        ((if par > 1 then [unsupported_warning v] else []),
         BaseRunner_init SequentialRunner L cfg))"

subsection \<open>Crossing the process boundary\<close>

text \<open>
  Modelled from the spec: the transport of an envelope from a worker process to the
  controller, which \<open>multiprocessing\<close> does by pickling, with the support for tracebacks
  that \<open>core/__init__.py\<close> installs (\<open>tblib.pickling_support.install()\<close>); neither
  library is among the sources. The specification: the envelope "must remain valid (its
  diagnostic trace reconstructable) after being transported across a process boundary",
  and the adapter is installed "so that diagnostic traces round-trip through the
  envelope". An exception is restored from its class and message and a traceback from
  the file, line and function of each entry, which is all this model keeps of them.
\<close>

definition across_process_boundary :: "delayed_exception \<Rightarrow> delayed_exception" where
  "across_process_boundary d = \<lparr>ee = ee d, tb = tb d, fname = fname d, args = args d\<rparr>"

subsection \<open>Notions used to state the properties\<close>

text \<open>
  What becomes of one file name in a run: building its work unit raises (\<open>Inl\<close>), or
  the unit is built and its deferred computation raises or returns.
\<close>

definition lint_outcome ::
  "('c, 's, 'f) runner \<Rightarrow> bool \<Rightarrow> string \<Rightarrow> raised + (raised + linted_file)" where
  "lint_outcome R fix f =
     (case iter_partials_step R fix f of
        Inl r \<Rightarrow> Inl r
      | Inr u \<Rightarrow> Inr (call_partial (r_linter R) (snd u)))"

text \<open>The results of the files whose deferred computation returns, in order.\<close>

definition results_of :: "('c, 's, 'f) runner \<Rightarrow> bool \<Rightarrow> string list \<Rightarrow> linted_file list" where
  "results_of R fix fs =
     concat (map (\<lambda>f. case lint_outcome R fix f of Inr (Inr res) \<Rightarrow> [res] | _ \<Rightarrow> []) fs)"

definition lints_cleanly :: "('c, 's, 'f) runner \<Rightarrow> bool \<Rightarrow> string \<Rightarrow> bool" where
  "lints_cleanly R fix f = (case lint_outcome R fix f of Inr (Inr res) \<Rightarrow> True | _ \<Rightarrow> False)"

text \<open>
  A linter for concrete runs: \<open>bad.sql\<close> makes the rules raise a \<open>ValueError\<close>,
  \<open>locked.sql\<close> an \<open>OSError\<close>, every other file is linted without violations.
\<close>

definition sample_linter :: "(string, nat, string) linter" where
  "sample_linter =
     \<lparr>render_file = (\<lambda>f cfg. Inr \<lparr>config = cfg, templated = f\<rparr>),
      get_ruleset = (\<lambda>cfg. Inr 0),
      lint_rendered = (\<lambda>rendered rule_set fix fm.
         if templated rendered = ''bad.sql'' then
           Inl (\<lparr>etype = ValueError, emsg = ''boom''\<rparr>, [Frame ''linter.py'' 1 ''lint_rendered''])
         else if templated rendered = ''locked.sql'' then
           Inl (\<lparr>etype = OSError, emsg = ''denied''\<rparr>, [Frame ''linter.py'' 2 ''lint_rendered''])
         else Inr \<lparr>path = templated rendered, violations = []\<rparr>),
      formatter = Some ''formatter''\<rparr>"

section \<open>Properties of the meta segments\<close>

text \<open>
  C8. Calling \<open>match\<close> on any of the four meta segment classes raises
  \<open>NotImplementedError\<close>, with a message naming the class, whatever the arguments; it
  never returns a value, so it is never an ordinary no-match result.
\<close>

theorem match_on_meta_segment_raises:
  "(match cls segments parse_context :: raised + 'm) =
      Inl (\<lparr>etype = NotImplementedError,
             emsg = seg_name cls @ '' has no match method, it should only be used in a Sequence!''\<rparr>,
           [Frame ''meta.py'' 28 ''match''])
   \<and> (\<forall>r. (match cls segments parse_context :: raised + 'm) \<noteq> Inr r)
   \<and> (\<exists>x. (match cls segments parse_context :: raised + 'm) = Inl x
          \<and> isinstance (fst x) NotImplementedError \<and> isinstance (fst x) Exception)"
  by (simp add: match_def match_wrapper_def match_body_def isinstance_def)

theorem match_on_meta_segment_raises_witness:
  "(match Dedent [''select''] () :: raised + bool) =
      Inl (\<lparr>etype = NotImplementedError,
             emsg = ''Dedent has no match method, it should only be used in a Sequence!''\<rparr>,
           [Frame ''meta.py'' 28 ''match''])"
  using match_on_meta_segment_raises [of Dedent "[''select'']" "()", where ?'m = bool]
  by simp

lemma Dedent_isinstance_Indent:
  "seg_isinstance x Dedent \<Longrightarrow> seg_isinstance x Indent"
  by (cases "seg_cls x") (simp_all add: seg_isinstance_def)

lemma class_attr_Dedent:
  "own Dedent = None \<Longrightarrow> class_attr own Dedent = class_attr own Indent"
  by (simp add: class_attr_def)

text \<open>
  C10. \<open>Dedent\<close> is declared with the base \<open>Indent\<close>, so every instance of \<open>Dedent\<close> is
  an instance of \<open>Indent\<close> and a selection by \<open>Indent\<close> keeps every \<open>Dedent\<close>. The type
  tags are \<open>dedent\<close> and \<open>indent\<close>, \<open>indent_val\<close> is \<open>-1\<close> and \<open>+1\<close>, both are meta
  segments with empty literal text, and every attribute that \<open>Dedent\<close> does not assign
  itself (\<open>is_meta\<close>, \<open>_is_code\<close>, \<open>_template\<close>) has on \<open>Dedent\<close> the value it has on
  \<open>Indent\<close>.
\<close>

theorem Dedent_is_an_Indent:
  "seg_base Dedent = Some Indent
   \<and> (seg_isinstance s Dedent \<longrightarrow> seg_isinstance s Indent)
   \<and> seg_isinstance (new_Dedent pm) Indent
   \<and> set (filter (\<lambda>x. seg_isinstance x Dedent) segs)
        \<subseteq> set (filter (\<lambda>x. seg_isinstance x Indent) segs)
   \<and> seg_type (new_Dedent pm) = Some ''dedent'' \<and> seg_type (new_Indent pm) = Some ''indent''
   \<and> indent_val (new_Dedent pm) = Some (- 1) \<and> indent_val (new_Indent pm) = Some 1
   \<and> is_meta (new_Dedent pm) = Some True \<and> is_meta (new_Indent pm) = Some True
   \<and> raw (new_Dedent pm) = [] \<and> raw (new_Indent pm) = []
   \<and> (own Dedent = None \<longrightarrow> class_attr own Dedent = class_attr own Indent)
   \<and> own_is_meta Dedent = None \<and> own_is_code Dedent = None \<and> own_template Dedent = None
   \<and> is_code (new_Dedent pm) = is_code (new_Indent pm)
   \<and> template (new_Dedent pm) = template (new_Indent pm)
   \<and> pos_marker (new_Dedent pm) = pos_marker (new_Indent pm)"
proof -
  have sel: "set (filter (\<lambda>x. seg_isinstance x Dedent) segs)
        \<subseteq> set (filter (\<lambda>x. seg_isinstance x Indent) segs)"
    using Dedent_isinstance_Indent by auto
  have attrs: "seg_type (new_Dedent pm) = Some ''dedent''" "seg_type (new_Indent pm) = Some ''indent''"
     "indent_val (new_Dedent pm) = Some (- 1)" "indent_val (new_Indent pm) = Some 1"
     "is_meta (new_Dedent pm) = Some True" "is_meta (new_Indent pm) = Some True"
     "raw (new_Dedent pm) = []" "raw (new_Indent pm) = []"
     "is_code (new_Dedent pm) = is_code (new_Indent pm)"
     "template (new_Dedent pm) = template (new_Indent pm)"
     "pos_marker (new_Dedent pm) = pos_marker (new_Indent pm)"
     "seg_isinstance (new_Dedent pm) Indent"
    by (simp_all add: new_Dedent_def new_Indent_def RawSegment_init_def seg_type_def
        indent_val_def is_meta_def is_code_def template_def class_attr_def seg_isinstance_def)
  show ?thesis
    using Dedent_isinstance_Indent [of s] sel attrs class_attr_Dedent [of own] by simp
qed

theorem Dedent_is_an_Indent_witness:
  "seg_isinstance (new_Dedent (Some (7::nat))) Dedent
   \<and> seg_isinstance (new_Dedent (Some (7::nat))) Indent
   \<and> filter (\<lambda>x. seg_isinstance x Indent)
        [new_MetaSegment (Some (1::nat)), new_Indent (Some 2), new_Dedent (Some 3)]
      = [new_Indent (Some 2), new_Dedent (Some 3)]
   \<and> own_is_meta Dedent = None
   \<and> class_attr own_is_meta Dedent = Some True"
  using Dedent_is_an_Indent [of "new_Dedent (Some (7::nat))" "Some (7::nat)"
      "[new_MetaSegment (Some (1::nat)), new_Indent (Some 2), new_Dedent (Some 3)]" own_is_meta]
  by (simp add: new_Dedent_def new_Indent_def new_MetaSegment_def RawSegment_init_def
      seg_isinstance_def class_attr_def)

lemma not_hex_not_ctl:
  "\<not> needs_hex c \<Longrightarrow> c \<noteq> CHR 0x09 \<and> c \<noteq> CHR 0x0A \<and> c \<noteq> CHR 0x0D"
  by (auto simp: needs_hex_def)

lemma repr_char_plain: "repr_plain q c \<Longrightarrow> repr_char q c = [c]"
  using not_hex_not_ctl [of c] by (simp add: repr_plain_def repr_char_def)

lemma concat_repr_plain:
  "\<forall>c\<in>set s. repr_plain q c \<Longrightarrow> concat (map (repr_char q) s) = s"
  by (induction s) (simp_all add: repr_char_plain)

lemma py_repr_plain:
  "\<forall>c\<in>set s. repr_plain (repr_quote s) c \<Longrightarrow> py_repr s = repr_quote s # s @ [repr_quote s]"
  by (simp add: py_repr_def Let_def concat_repr_plain)

lemma sublist_in_quotes: "sublist s (pre @ q # s @ [q'] @ post)"
proof -
  have "pre @ q # s @ [q'] @ post = (pre @ [q]) @ s @ ([q'] @ post)" by simp
  then show ?thesis unfolding sublist_def by blast
qed

lemma suffix_has_reprs:
  "sublist (py_repr (block_type s)) (TemplateSegment_suffix s)
   \<and> sublist (py_repr (source_str s)) (TemplateSegment_suffix s)"
proof
  show "sublist (py_repr (block_type s)) (TemplateSegment_suffix s)"
    unfolding TemplateSegment_suffix_def sublist_def by blast
  have "TemplateSegment_suffix s =
      (''[Type: '' @ py_repr (block_type s) @ '', Raw: '') @ py_repr (source_str s) @ '']''"
    by (simp add: TemplateSegment_suffix_def)
  then show "sublist (py_repr (source_str s)) (TemplateSegment_suffix s)"
    unfolding sublist_def by blast
qed

lemma sublist_trans': "sublist a b \<Longrightarrow> sublist b c \<Longrightarrow> sublist a c"
  by (rule sublist_order.order_trans)

lemma plain_in_repr:
  "\<forall>c\<in>set s. repr_plain (repr_quote s) c \<Longrightarrow> sublist s (py_repr s)"
  using sublist_in_quotes [of s "[]" "repr_quote s" "repr_quote s" "[]"]
  by (simp add: py_repr_plain)

text \<open>
  C7, as amended. Constructing a \<open>TemplateSegment\<close> with an empty source string raises
  \<open>ValueError\<close>. With a non-empty source string it succeeds and stores the string and
  the block type as given (the block type is the empty string when left out), and the
  suffix is \<open>[Type: \<close> followed by the \<open>repr\<close> of the block type, \<open>, Raw: \<close>, the \<open>repr\<close>
  of the source string and \<open>]\<close>. So the suffix contains the \<open>repr\<close> of both, and
  contains a string itself whenever \<open>repr\<close> escapes none of its characters.
\<close>

theorem TemplateSegment_construction:
  "TemplateSegment_init pm [] bt =
     Inl (\<lparr>etype = ValueError,
            emsg = ''Cannot instantiate TemplateSegment without a source_str.''\<rparr>,
          [Frame ''meta.py'' 83 ''__init__''])
   \<and> new_TemplateSegment pm (Some src) None = TemplateSegment_init pm src []
   \<and> (src \<noteq> [] \<longrightarrow>
        (\<exists>s. TemplateSegment_init pm src bt = Inr s
           \<and> seg_cls s = TemplateSegment \<and> pos_marker s = pm \<and> raw s = []
           \<and> source_str s = src \<and> block_type s = bt
           \<and> TemplateSegment_suffix s = ''[Type: '' @ py_repr bt @ '', Raw: '' @ py_repr src @ '']''
           \<and> sublist (py_repr bt) (TemplateSegment_suffix s)
           \<and> sublist (py_repr src) (TemplateSegment_suffix s)
           \<and> ((\<forall>c\<in>set src. repr_plain (repr_quote src) c) \<longrightarrow>
                 sublist src (TemplateSegment_suffix s))
           \<and> ((\<forall>c\<in>set bt. repr_plain (repr_quote bt) c) \<longrightarrow>
                 sublist bt (TemplateSegment_suffix s))))"
proof (intro conjI impI)
  show "TemplateSegment_init pm [] bt =
     Inl (\<lparr>etype = ValueError,
            emsg = ''Cannot instantiate TemplateSegment without a source_str.''\<rparr>,
          [Frame ''meta.py'' 83 ''__init__''])"
    by (simp add: TemplateSegment_init_def)
  show "new_TemplateSegment pm (Some src) None = TemplateSegment_init pm src []"
    by (simp add: new_TemplateSegment_def)
next
  assume ne: "src \<noteq> []"
  define s where "s = segment.extend (RawSegment_init TemplateSegment pm)
               (template_segment.fields src bt)"
  have init: "TemplateSegment_init pm src bt = Inr s"
    using ne by (simp add: TemplateSegment_init_def s_def)
  have flds: "seg_cls s = TemplateSegment" "pos_marker s = pm" "raw s = []"
      "source_str s = src" "block_type s = bt"
    by (simp_all add: s_def RawSegment_init_def segment.defs template_segment.defs)
  have suf: "TemplateSegment_suffix s = ''[Type: '' @ py_repr bt @ '', Raw: '' @ py_repr src @ '']''"
    by (simp add: TemplateSegment_suffix_def flds)
  have r: "sublist (py_repr bt) (TemplateSegment_suffix s)"
      "sublist (py_repr src) (TemplateSegment_suffix s)"
    using suffix_has_reprs [of s] by (simp_all add: flds)
  have p1: "(\<forall>c\<in>set src. repr_plain (repr_quote src) c) \<longrightarrow> sublist src (TemplateSegment_suffix s)"
    using plain_in_repr [of src] r(2) sublist_trans' by blast
  have p2: "(\<forall>c\<in>set bt. repr_plain (repr_quote bt) c) \<longrightarrow> sublist bt (TemplateSegment_suffix s)"
    using plain_in_repr [of bt] r(1) sublist_trans' by blast
  show "\<exists>s. TemplateSegment_init pm src bt = Inr s
           \<and> seg_cls s = TemplateSegment \<and> pos_marker s = pm \<and> raw s = []
           \<and> source_str s = src \<and> block_type s = bt
           \<and> TemplateSegment_suffix s = ''[Type: '' @ py_repr bt @ '', Raw: '' @ py_repr src @ '']''
           \<and> sublist (py_repr bt) (TemplateSegment_suffix s)
           \<and> sublist (py_repr src) (TemplateSegment_suffix s)
           \<and> ((\<forall>c\<in>set src. repr_plain (repr_quote src) c) \<longrightarrow>
                 sublist src (TemplateSegment_suffix s))
           \<and> ((\<forall>c\<in>set bt. repr_plain (repr_quote bt) c) \<longrightarrow>
                 sublist bt (TemplateSegment_suffix s))"
    using init flds suf r p1 p2 by blast
qed

lemma plain_chars_example:
  "(\<forall>c\<in>set ''{% if x %}''. repr_plain (repr_quote ''{% if x %}'') c)
   \<and> (\<forall>c\<in>set ''block_start''. repr_plain (repr_quote ''block_start'') c)"
  by (simp add: repr_plain_def repr_quote_def needs_hex_def squote_def dquote_def backslash_def)

theorem TemplateSegment_construction_witness:
  "\<exists>s. TemplateSegment_init (Some (0::nat)) ''{% if x %}'' ''block_start'' = Inr s
     \<and> source_str s = ''{% if x %}'' \<and> block_type s = ''block_start''
     \<and> sublist ''{% if x %}'' (TemplateSegment_suffix s)
     \<and> sublist ''block_start'' (TemplateSegment_suffix s)"
  using TemplateSegment_construction [of "Some (0::nat)" "''block_start''" "''{% if x %}''"]
    plain_chars_example
  by auto

text \<open>
  C7 as stated fails: for a source string with a line break, here a template comment
  over two lines, the suffix has the two characters \<open>\n\<close> in place of the line break
  and so does not contain the stored string.
\<close>

theorem suffix_escapes_source_counterexample:
  "TemplateSegment_init (None :: unit option) ''{#\<newline>#}'' ''comment'' =
     Inr \<lparr>seg_cls = TemplateSegment, pos_marker = None, raw = [],
          source_str = ''{#\<newline>#}'', block_type = ''comment''\<rparr>
   \<and> \<not> sublist ''{#\<newline>#}''
        (TemplateSegment_suffix \<lparr>seg_cls = TemplateSegment, pos_marker = None :: unit option,
           raw = [], source_str = ''{#\<newline>#}'', block_type = ''comment''\<rparr>)"
proof
  show "TemplateSegment_init (None :: unit option) ''{#\<newline>#}'' ''comment'' =
     Inr \<lparr>seg_cls = TemplateSegment, pos_marker = None, raw = [],
          source_str = ''{#\<newline>#}'', block_type = ''comment''\<rparr>"
    by (simp add: TemplateSegment_init_def RawSegment_init_def segment.defs template_segment.defs)
  show "\<not> sublist ''{#\<newline>#}''
        (TemplateSegment_suffix \<lparr>seg_cls = TemplateSegment, pos_marker = None :: unit option,
           raw = [], source_str = ''{#\<newline>#}'', block_type = ''comment''\<rparr>)"
    by code_simp
qed

section \<open>Properties of the runner factory and of the work units\<close>

text \<open>
  C4. \<open>get_runner\<close> returns a \<open>SequentialRunner\<close> and logs nothing when \<open>parallel\<close> is at
  most 1; a \<open>MultiProcessRunner\<close> when \<open>parallel\<close> exceeds 1, the interpreter is 3.7 or
  later and process parallelism is allowed; a \<open>MultiThreadRunner\<close> when it is not allowed;
  and a \<open>SequentialRunner\<close> with one warning when \<open>parallel\<close> exceeds 1 on an older
  interpreter. It always returns one of the three runners, holding the linter and the
  configuration given.
\<close>

theorem get_runner_selection:
  "(par \<le> 1 \<longrightarrow>
      get_runner v L cfg par allow = ([], BaseRunner_init SequentialRunner L cfg))
   \<and> (par > 1 \<and> version_supported v \<and> allow \<longrightarrow>
      get_runner v L cfg par allow = ([], ParallelRunner_init MultiProcessRunner L cfg par))
   \<and> (par > 1 \<and> version_supported v \<and> \<not> allow \<longrightarrow>
      get_runner v L cfg par allow = ([], ParallelRunner_init MultiThreadRunner L cfg par))
   \<and> (par > 1 \<and> \<not> version_supported v \<longrightarrow>
      get_runner v L cfg par allow = ([unsupported_warning v], BaseRunner_init SequentialRunner L cfg))
   \<and> r_cls (snd (get_runner v L cfg par allow))
        \<in> {SequentialRunner, MultiProcessRunner, MultiThreadRunner}
   \<and> r_linter (snd (get_runner v L cfg par allow)) = L
   \<and> r_config (snd (get_runner v L cfg par allow)) = cfg"
  by (simp add: get_runner_def BaseRunner_init_def ParallelRunner_init_def)

theorem get_runner_selection_witness:
  "r_cls (snd (get_runner (3, 8) sample_linter ''cfg'' 1 True)) = SequentialRunner
   \<and> fst (get_runner (3, 8) sample_linter ''cfg'' 1 True) = []
   \<and> r_cls (snd (get_runner (3, 8) sample_linter ''cfg'' 4 True)) = MultiProcessRunner
   \<and> r_cls (snd (get_runner (3, 8) sample_linter ''cfg'' 4 False)) = MultiThreadRunner
   \<and> r_cls (snd (get_runner (3, 6) sample_linter ''cfg'' 4 True)) = SequentialRunner
   \<and> fst (get_runner (3, 6) sample_linter ''cfg'' 4 True)
        = [''Parallel linting is not supported in Python 3.6.'']"
proof -
  have v: "version_supported (3, 8)" "\<not> version_supported (3, 6)"
    by (simp_all add: version_supported_def)
  have w: "unsupported_warning (3, 6) = ''Parallel linting is not supported in Python 3.6.''"
    by (simp add: unsupported_warning_def show_nat.simps digit_char_def)
  show ?thesis
    using get_runner_selection [of 1 "(3, 8)" sample_linter "''cfg''" True]
      get_runner_selection [of 4 "(3, 8)" sample_linter "''cfg''" True]
      get_runner_selection [of 4 "(3, 8)" sample_linter "''cfg''" False]
      get_runner_selection [of 4 "(3, 6)" sample_linter "''cfg''" True] v w
    by (simp add: BaseRunner_init_def ParallelRunner_init_def)
qed

lemma pass_formatter_classes:
  "pass_formatter BaseRunner = Some True" "pass_formatter SequentialRunner = Some True"
  "pass_formatter ParallelRunner = Some False" "pass_formatter MultiProcessRunner = Some False"
  "pass_formatter MultiThreadRunner = Some False"
  by (simp_all add: pass_formatter_def)

lemma step_formatter:
  "iter_partials_step R fix f = Inr (f', p) \<Longrightarrow>
     f' = f \<and> p_fix p = fix \<and>
     p_formatter p = (if pass_formatter (r_cls R) = Some True then formatter (r_linter R) else None)"
  by (auto simp: iter_partials_step_def iter_rendered_step_def split: sum.splits prod.splits)

lemma iter_partials_units:
  "Inr (f', p) \<in> set (iter_partials R fs fix) \<Longrightarrow>
     f' \<in> set fs \<and> iter_partials_step R fix f' = Inr (f', p)"
proof (induction fs)
  case Nil
  then show ?case by simp
next
  case (Cons a fs)
  show ?case
  proof (cases "iter_partials_step R fix a")
    case (Inl r)
    with Cons.prems show ?thesis by simp
  next
    case (Inr u)
    obtain g q where u: "u = (g, q)" by (cases u)
    have "g = a" using step_formatter [of R "fix" a g q] Inr u by simp
    with Cons Inr u show ?thesis by auto
  qed
qed

text \<open>
  C9, as amended. The formatter argument of every work unit is the linter's formatter
  when the runner is a \<open>SequentialRunner\<close> and \<open>None\<close> when it is a
  \<open>MultiProcessRunner\<close> or a \<open>MultiThreadRunner\<close>. In a parallel run the formatter is
  used by the controller alone, which hands it each result it collects before yielding
  the result.
\<close>

theorem work_unit_formatter:
  "(Inr (f, p) \<in> set (iter_partials R fs fix) \<longrightarrow>
       (r_cls R = SequentialRunner \<longrightarrow> p_formatter p = formatter (r_linter R))
     \<and> (r_cls R = MultiProcessRunner \<longrightarrow> p_formatter p = None)
     \<and> (r_cls R = MultiThreadRunner \<longrightarrow> p_formatter p = None))
   \<and> collect R fix [Item (Inr res)] =
       ((case formatter (r_linter R) of
           Some fm \<Rightarrow> [Dispatch fm (path res) res fix]
         | None \<Rightarrow> []) @ [Yield res], None)"
proof (intro conjI impI)
  show "collect R fix [Item (Inr res)] =
       ((case formatter (r_linter R) of
           Some fm \<Rightarrow> [Dispatch fm (path res) res fix]
         | None \<Rightarrow> []) @ [Yield res], None)"
    by simp
next
  assume "Inr (f, p) \<in> set (iter_partials R fs fix)"
  then have s: "p_formatter p =
      (if pass_formatter (r_cls R) = Some True then formatter (r_linter R) else None)"
    using iter_partials_units [of f p R fs "fix"] step_formatter [of R "fix" f f p] by simp
  { assume "r_cls R = SequentialRunner"
    then show "p_formatter p = formatter (r_linter R)" using s by (simp add: pass_formatter_classes) }
  { assume "r_cls R = MultiProcessRunner"
    then show "p_formatter p = None" using s by (simp add: pass_formatter_classes) }
  { assume "r_cls R = MultiThreadRunner"
    then show "p_formatter p = None" using s by (simp add: pass_formatter_classes) }
qed

lemma sample_units:
  "iter_partials (BaseRunner_init SequentialRunner sample_linter ''cfg'') [''a.sql''] False
     = [Inr (''a.sql'', \<lparr>p_rendered = \<lparr>config = ''cfg'', templated = ''a.sql''\<rparr>, p_rule_set = 0,
           p_fix = False, p_formatter = Some ''formatter''\<rparr>)]"
  "iter_partials (ParallelRunner_init MultiProcessRunner sample_linter ''cfg'' 4) [''a.sql''] False
     = [Inr (''a.sql'', \<lparr>p_rendered = \<lparr>config = ''cfg'', templated = ''a.sql''\<rparr>, p_rule_set = 0,
           p_fix = False, p_formatter = None\<rparr>)]"
  "iter_partials (ParallelRunner_init MultiThreadRunner sample_linter ''cfg'' 4) [''a.sql''] False
     = [Inr (''a.sql'', \<lparr>p_rendered = \<lparr>config = ''cfg'', templated = ''a.sql''\<rparr>, p_rule_set = 0,
           p_fix = False, p_formatter = None\<rparr>)]"
  by (simp_all add: iter_partials_step_def iter_rendered_step_def sample_linter_def
      BaseRunner_init_def ParallelRunner_init_def pass_formatter_def)

theorem work_unit_formatter_witness:
  "p_formatter \<lparr>p_rendered = \<lparr>config = ''cfg'', templated = ''a.sql''\<rparr>, p_rule_set = 0 :: nat,
       p_fix = False, p_formatter = Some ''formatter''\<rparr> = formatter sample_linter
   \<and> formatter sample_linter = Some ''formatter''"
  using work_unit_formatter [of "''a.sql''"
      "\<lparr>p_rendered = \<lparr>config = ''cfg'', templated = ''a.sql''\<rparr>, p_rule_set = 0,
           p_fix = False, p_formatter = Some ''formatter''\<rparr>"
      "BaseRunner_init SequentialRunner sample_linter ''cfg''" "[''a.sql'']" False]
    sample_units(1)
  by (simp add: BaseRunner_init_def sample_linter_def)

text \<open>
  C9 as stated fails for the thread runner: the runner chosen for \<open>parallel = 4\<close> without
  process parallelism is a \<open>MultiThreadRunner\<close>, its linter has a formatter, and the work
  unit it builds has the formatter argument \<open>None\<close>: the formatter is not shared with
  the deferred computation.
\<close>

theorem thread_unit_has_no_formatter_counterexample:
  "r_cls (snd (get_runner (3, 8) sample_linter ''cfg'' 4 False)) = MultiThreadRunner
   \<and> formatter (r_linter (snd (get_runner (3, 8) sample_linter ''cfg'' 4 False))) = Some ''formatter''
   \<and> map (map_sum fst (p_formatter \<circ> snd))
        (iter_partials (snd (get_runner (3, 8) sample_linter ''cfg'' 4 False)) [''a.sql''] False)
      = [Inr None]"
proof -
  have g: "get_runner (3, 8) sample_linter ''cfg'' 4 False
      = ([], ParallelRunner_init MultiThreadRunner sample_linter ''cfg'' 4)"
    by (simp add: get_runner_def version_supported_def)
  show ?thesis
    unfolding g using sample_units(3)
    by (simp add: ParallelRunner_init_def BaseRunner_init_def sample_linter_def)
qed

section \<open>Properties of the error envelope\<close>

lemma OSError_is_Exception: "OSError \<in> set (exc_mro c) \<Longrightarrow> Exception \<in> set (exc_mro c)"
  by (induction c) auto

lemma isinstance_IOError_Exception: "isinstance e IOError \<Longrightarrow> isinstance e Exception"
  by (simp add: isinstance_def OSError_is_Exception)

lemma DelayedException_init_fields:
  "ee (DelayedException_init e fo info) = e"
  "tb (DelayedException_init e fo info) = map_option snd info"
  "fname (DelayedException_init e fo info) = None"
  "args (DelayedException_init e fo info) = emsg e"
  by (simp_all add: DelayedException_init_def)

lemma apply_envelope:
  assumes "ParallelRunner_apply L (f, p) = Inr (Inl d)"
  shows "\<exists>e tb0. call_partial L p = Inl (e, tb0) \<and> isinstance e Exception
           \<and> d = DelayedException_init e (Some f) (Some (e, Frame ''runner.py'' 154 ''_apply'' # tb0))"
proof (cases "call_partial L p")
  case (Inr res)
  with assms show ?thesis by (simp add: ParallelRunner_apply_def)
next
  case (Inl r0)
  obtain e tb0 where r0: "r0 = (e, tb0)" by (cases r0)
  from assms Inl r0 show ?thesis
    by (auto simp: ParallelRunner_apply_def reach_def Let_def split: if_splits)
qed

text \<open>
  C3. When \<open>_apply\<close> has caught an exception \<open>e\<close> of a work unit and returned its
  envelope, the envelope holds \<open>e\<close> and the traceback \<open>e\<close> was caught with, which begins
  with the entry of \<open>_apply\<close> and so is not empty; \<open>reraise\<close> raises \<open>e\<close> itself, hence an
  exception of the same class and message, with that traceback after the entry of
  \<open>reraise\<close>; and the envelope received across the process boundary reraises the same.
\<close>

theorem reraise_restores_exception:
  assumes "ParallelRunner_apply L (f, p) = Inr (Inl d)"
  shows "\<exists>e tb0. call_partial L p = Inl (e, tb0)
           \<and> ee d = e \<and> tb d = Some (Frame ''runner.py'' 154 ''_apply'' # tb0)
           \<and> fst (reraise d) = e
           \<and> etype (fst (reraise d)) = etype e \<and> emsg (fst (reraise d)) = emsg e
           \<and> snd (reraise d)
               = Frame ''runner.py'' 209 ''reraise'' # Frame ''runner.py'' 154 ''_apply'' # tb0
           \<and> snd (reraise d) \<noteq> []
           \<and> reraise (across_process_boundary d) = reraise d"
proof -
  from apply_envelope [OF assms] obtain e tb0 where
    c: "call_partial L p = Inl (e, tb0)" and
    d: "d = DelayedException_init e (Some f) (Some (e, Frame ''runner.py'' 154 ''_apply'' # tb0))"
    by blast
  have "ee d = e" "tb d = Some (Frame ''runner.py'' 154 ''_apply'' # tb0)"
    by (simp_all add: d DelayedException_init_fields)
  then show ?thesis
    using c by (simp add: reraise_def reach_def across_process_boundary_def)
qed

lemma sample_apply:
  "ParallelRunner_apply sample_linter
     (''bad.sql'', \<lparr>p_rendered = \<lparr>config = ''cfg'', templated = ''bad.sql''\<rparr>, p_rule_set = 0,
        p_fix = False, p_formatter = None\<rparr>)
   = Inr (Inl \<lparr>ee = \<lparr>etype = ValueError, emsg = ''boom''\<rparr>,
               tb = Some [Frame ''runner.py'' 154 ''_apply'', Frame ''linter.py'' 1 ''lint_rendered''],
               fname = None, args = ''boom''\<rparr>)"
  by (simp add: ParallelRunner_apply_def call_partial_def sample_linter_def reach_def
      isinstance_def DelayedException_init_def)

theorem reraise_restores_exception_witness:
  "reraise (across_process_boundary
       \<lparr>ee = \<lparr>etype = ValueError, emsg = ''boom''\<rparr>,
        tb = Some [Frame ''runner.py'' 154 ''_apply'', Frame ''linter.py'' 1 ''lint_rendered''],
        fname = None, args = ''boom''\<rparr>)
   = (\<lparr>etype = ValueError, emsg = ''boom''\<rparr>,
      [Frame ''runner.py'' 209 ''reraise'', Frame ''runner.py'' 154 ''_apply'',
       Frame ''linter.py'' 1 ''lint_rendered''])"
  using reraise_restores_exception [OF sample_apply]
  by (simp add: reraise_def reach_def across_process_boundary_def)

text \<open>
  C1 fails on the code. \<open>DelayedException.__init__\<close> is given the file name
  \<open>bad.sql\<close> and stores \<open>None\<close>; the envelope that \<open>_apply\<close> returns for the failing
  unit of \<open>bad.sql\<close> has the file name \<open>None\<close>; and the controller, handling it, logs a
  warning that begins \<open>Unable to lint None\<close>.
\<close>

theorem envelope_loses_fname:
  "fname (DelayedException_init \<lparr>etype = ValueError, emsg = ''boom''\<rparr> (Some ''bad.sql'')
       (Some (\<lparr>etype = ValueError, emsg = ''boom''\<rparr>,
              [Frame ''runner.py'' 154 ''_apply'', Frame ''linter.py'' 1 ''lint_rendered''])))
     = None
   \<and> map_sum fst (map_sum fname path)
       (ParallelRunner_apply sample_linter
          (''bad.sql'', \<lparr>p_rendered = \<lparr>config = ''cfg'', templated = ''bad.sql''\<rparr>,
             p_rule_set = 0, p_fix = False, p_formatter = None\<rparr>))
     = Inr (Inl None)
   \<and> collect (ParallelRunner_init MultiThreadRunner sample_linter ''cfg'' 2) False
       [Item (Inl (DelayedException_init \<lparr>etype = ValueError, emsg = ''boom''\<rparr> (Some ''bad.sql'')
          (Some (\<lparr>etype = ValueError, emsg = ''boom''\<rparr>,
              [Frame ''runner.py'' 154 ''_apply'', Frame ''linter.py'' 1 ''lint_rendered'']))))]
     = ([LogWarning (lint_warning None
          (Some (\<lparr>etype = ValueError, emsg = ''boom''\<rparr>,
             [Frame ''runner.py'' 131 ''run'', Frame ''runner.py'' 209 ''reraise'',
              Frame ''runner.py'' 154 ''_apply'', Frame ''linter.py'' 1 ''lint_rendered''])))],
        None)
   \<and> prefix ''Unable to lint None due to an internal error.'' (lint_warning None info)"
proof (intro conjI)
  show "prefix ''Unable to lint None due to an internal error.'' (lint_warning None info)"
    by (simp add: lint_warning_def format_fname_def)
qed (simp_all add: sample_apply DelayedException_init_def reraise_def reach_def isinstance_def
      handle_lint_path_exception_def)

section \<open>Properties of the runs\<close>

lemma seq_run_append:
  "SequentialRunner_run R (xs @ ys) fix =
     (case SequentialRunner_run R xs fix of
        (t, None) \<Rightarrow> (case SequentialRunner_run R ys fix of (t', x) \<Rightarrow> (t @ t', x))
      | (t, Some r) \<Rightarrow> (t, Some r))"
  by (induction xs) (auto simp: Let_def split: sum.splits prod.splits option.splits)

lemma step_keeps_name:
  "iter_partials_step R fix f = Inr (f', p) \<Longrightarrow> f' = f"
  by (auto simp: iter_partials_step_def iter_rendered_step_def split: sum.splits prod.splits)

lemma seq_run_clean:
  "\<forall>f\<in>set fs. lints_cleanly R fix f \<Longrightarrow>
     SequentialRunner_run R fs fix = (map Yield (results_of R fix fs), None)"
proof (induction fs)
  case Nil
  show ?case by (simp add: results_of_def)
next
  case (Cons a fs)
  then have ih: "SequentialRunner_run R fs fix = (map Yield (results_of R fix fs), None)"
    by simp
  from Cons.prems have "lints_cleanly R fix a" by simp
  then obtain u res where u: "iter_partials_step R fix a = Inr u"
      and c: "call_partial (r_linter R) (snd u) = Inr res"
    by (auto simp: lints_cleanly_def lint_outcome_def split: sum.splits)
  obtain g p where gp: "u = (g, p)" by (cases u)
  have o: "lint_outcome R fix a = Inr (Inr res)"
    by (simp add: lint_outcome_def u c)
  have r: "results_of R fix (a # fs) = res # results_of R fix fs"
    by (simp add: results_of_def o)
  show ?case
    using u c gp ih by (simp add: r)
qed

lemma results_of_clean_length:
  "\<forall>f\<in>set fs. lints_cleanly R fix f \<Longrightarrow> length (results_of R fix fs) = length fs"
proof (induction fs)
  case Nil
  show ?case by (simp add: results_of_def)
next
  case (Cons a fs)
  from Cons.prems have "lints_cleanly R fix a" by simp
  then obtain res where "lint_outcome R fix a = Inr (Inr res)"
    by (auto simp: lints_cleanly_def split: sum.splits)
  then have "results_of R fix (a # fs) = res # results_of R fix fs"
    by (simp add: results_of_def)
  with Cons show ?case by simp
qed



lemma yielded_map_Yield: "yielded (map Yield rs @ es) = rs @ yielded es"
  by (induction rs) simp_all

lemma warnings_map_Yield: "warnings (map Yield rs @ es) = warnings es"
  by (induction rs) simp_all

lemma seq_run_failing_unit:
  assumes o: "lint_outcome R fix F = Inr (Inl (e, tb0))"
    and ex: "isinstance e Exception"
  shows "SequentialRunner_run R (F # post) fix =
     (case handle_lint_path_exception (Some F) (e, Frame ''runner.py'' 94 ''run'' # tb0) of
        Inl r' \<Rightarrow> ([], Some (reach (Frame ''runner.py'' 96 ''run'') r'))
      | Inr w \<Rightarrow> (case SequentialRunner_run R post fix of (t, x) \<Rightarrow> (w # t, x)))"
proof -
  from o obtain u where u: "iter_partials_step R fix F = Inr u"
      and c: "call_partial (r_linter R) (snd u) = Inl (e, tb0)"
    by (auto simp: lint_outcome_def split: sum.splits)
  obtain g p where gp: "u = (g, p)" by (cases u)
  have g: "g = F" using step_keeps_name [of R "fix" F g p] u gp by simp
  show ?thesis
    using u c gp g ex by (simp add: reach_def Let_def)
qed

lemma format_exc_nonempty: "format_exc info \<noteq> []"
  by (simp add: format_exc_def split: option.splits prod.splits)

lemma lint_warning_parts:
  "sublist F (lint_warning (Some F) info) \<and> suffix (format_exc info) (lint_warning (Some F) info)"
proof
  have "lint_warning (Some F) info = ''Unable to lint '' @ F @
      ('' due to an internal error. ''
        @ ''Please report this as an issue with your query's contents and stacktrace below!\<newline>''
        @ ''To hide this warning, add the failing file to .sqlfluffignore\<newline>''
        @ format_exc info)"
    by (simp add: lint_warning_def format_fname_def)
  then show "sublist F (lint_warning (Some F) info)"
    unfolding sublist_def by blast
  show "suffix (format_exc info) (lint_warning (Some F) info)"
    unfolding lint_warning_def suffix_def by (metis append.assoc)
qed

lemma format_frame_text:
  \<open>format_frame (Frame file line name) =
     ''  File "'' @ file @ ''", line '' @ show_nat line @ '', in '' @ name @ ''\<newline>''\<close>
  by (simp add: format_frame_def dquote_def)

lemma run_frame_text:
  \<open>format_frame (Frame ''runner.py'' 94 ''run'') = ''  File "runner.py", line 94, in run\<newline>''\<close>
  by (simp add: format_frame_def dquote_def show_nat.simps digit_char_def)

lemma format_exc_text:
  \<open>format_exc (Some (e, Frame ''runner.py'' 94 ''run'' # tb0)) =
     ''Traceback (most recent call last):\<newline>''
     @ ''  File "runner.py", line 94, in run\<newline>''
     @ concat (map format_frame tb0)
     @ exc_name (etype e) @ (if emsg e = [] then [] else '': '' @ emsg e) @ ''\<newline>''\<close>
  by (simp add: format_exc_def run_frame_text)

lemma lint_warning_text:
  \<open>lint_warning (Some F) info =
     ''Unable to lint '' @ F @ '' due to an internal error. Please report this as an issue with your query's contents and stacktrace below!\<newline>To hide this warning, add the failing file to .sqlfluffignore\<newline>''
     @ format_exc info\<close>
  by (simp add: lint_warning_def format_fname_def)

lemma sublist_mid: "sublist x (a @ x @ b)"
  unfolding sublist_def by blast

lemma sublist_concat_map: "x \<in> set xs \<Longrightarrow> sublist (f x) (concat (map f xs))"
proof -
  assume "x \<in> set xs"
  then obtain ys zs where "xs = ys @ x # zs" by (meson split_list)
  then have "concat (map f xs) = concat (map f ys) @ f x @ concat (map f zs)" by simp
  then show ?thesis unfolding sublist_def by blast
qed

lemma format_exc_parts:
  "sublist (exc_name (etype e)) (format_exc (Some (e, tb1)))
   \<and> sublist (emsg e) (format_exc (Some (e, tb1)))
   \<and> (\<forall>fr\<in>set tb1. sublist (format_frame fr) (format_exc (Some (e, tb1))))"
proof (intro conjI ballI)
  let ?h = "(if tb1 = [] then [] else ''Traceback (most recent call last):\<newline>'')"
  let ?m = "(if emsg e = [] then [] else '': '' @ emsg e)"
  have f: "format_exc (Some (e, tb1)) = ?h @ concat (map format_frame tb1) @ exc_name (etype e) @ ?m @ ''\<newline>''"
    by (simp add: format_exc_def)
  have "format_exc (Some (e, tb1)) = (?h @ concat (map format_frame tb1)) @ exc_name (etype e) @ (?m @ ''\<newline>'')"
    by (simp add: f)
  then show "sublist (exc_name (etype e)) (format_exc (Some (e, tb1)))"
    unfolding sublist_def by blast
  show "sublist (emsg e) (format_exc (Some (e, tb1)))"
  proof (cases "emsg e = []")
    case True
    then show ?thesis by simp
  next
    case False
    then have "format_exc (Some (e, tb1)) =
        (?h @ concat (map format_frame tb1) @ exc_name (etype e) @ '': '') @ emsg e @ ''\<newline>''"
      by (simp add: f)
    then show ?thesis unfolding sublist_def by blast
  qed
  fix fr assume "fr \<in> set tb1"
  then have "sublist (format_frame fr) (concat (map format_frame tb1))"
    by (rule sublist_concat_map)
  moreover have "sublist (concat (map format_frame tb1)) (format_exc (Some (e, tb1)))"
    unfolding f sublist_def by blast
  ultimately show "sublist (format_frame fr) (format_exc (Some (e, tb1)))"
    by (rule sublist_order.order_trans)
qed

lemma suffix_sublist: "suffix a b \<Longrightarrow> sublist a b"
  unfolding suffix_def sublist_def by (metis append_Nil2)

text \<open>
  C2. In a sequential run over the file names \<open>pre @ F # post\<close>, where every file but
  \<open>F\<close> is rendered and linted without an exception and the deferred computation of \<open>F\<close>
  raises an \<open>Exception\<close> that is not an \<open>IOError\<close>, the run ends without an exception;
  it yields the results of the other files, in order and one for each, so one fewer than
  there are file names; the files after \<open>F\<close> are processed; and it logs exactly one
  warning. The warning is \<open>Unable to lint\<close>, the name \<open>F\<close>, the request to report the
  error, and then the traceback of the exception: the line \<open>Traceback (most recent call
  last):\<close>, the entry of \<open>run\<close> at line 94, the entries the exception came with, each as
  its file, line and function, and the exception's class name and message.
\<close>

theorem sequential_run_skips_failing_file:
  assumes others: \<open>\<forall>f\<in>set pre \<union> set post. lints_cleanly (R :: ('c, 's, 'f) runner) fix f\<close>
    and fails: \<open>lint_outcome R fix F = Inr (Inl (e, tb0))\<close>
    and ex: \<open>isinstance e Exception\<close>
    and not_io: \<open>\<not> isinstance e IOError\<close>
  shows \<open>SequentialRunner_run R (pre @ F # post) fix =
           (map Yield (results_of R fix pre)
              @ LogWarning (lint_warning (Some F) (Some (e, Frame ''runner.py'' 94 ''run'' # tb0)))
              # map Yield (results_of R fix post), None)
     \<and> yielded (fst (SequentialRunner_run R (pre @ F # post) fix))
           = results_of R fix pre @ results_of R fix post
     \<and> length (yielded (fst (SequentialRunner_run R (pre @ F # post) fix)))
           = length (pre @ F # post) - 1
     \<and> warnings (fst (SequentialRunner_run R (pre @ F # post) fix))
           = [lint_warning (Some F) (Some (e, Frame ''runner.py'' 94 ''run'' # tb0))]
     \<and> sublist F (lint_warning (Some F) (Some (e, Frame ''runner.py'' 94 ''run'' # tb0)))
     \<and> suffix (format_exc (Some (e, Frame ''runner.py'' 94 ''run'' # tb0)))
          (lint_warning (Some F) (Some (e, Frame ''runner.py'' 94 ''run'' # tb0)))
     \<and> format_exc (Some (e, Frame ''runner.py'' 94 ''run'' # tb0)) \<noteq> []
     \<and> lint_warning (Some F) (Some (e, Frame ''runner.py'' 94 ''run'' # tb0)) =
          ''Unable to lint '' @ F @ '' due to an internal error. Please report this as an issue with your query's contents and stacktrace below!\<newline>To hide this warning, add the failing file to .sqlfluffignore\<newline>''
          @ ''Traceback (most recent call last):\<newline>''
          @ ''  File "runner.py", line 94, in run\<newline>''
          @ concat (map format_frame tb0)
          @ exc_name (etype e) @ (if emsg e = [] then [] else '': '' @ emsg e) @ ''\<newline>''
     \<and> sublist ''Traceback (most recent call last):\<newline>  File "runner.py", line 94, in run\<newline>''
          (lint_warning (Some F) (Some (e, Frame ''runner.py'' 94 ''run'' # tb0)))
     \<and> (\<forall>fr\<in>set tb0. sublist (format_frame fr) (lint_warning (Some F) (Some (e, Frame ''runner.py'' 94 ''run'' # tb0))))
     \<and> sublist (exc_name (etype e)) (lint_warning (Some F) (Some (e, Frame ''runner.py'' 94 ''run'' # tb0)))
     \<and> sublist (emsg e) (lint_warning (Some F) (Some (e, Frame ''runner.py'' 94 ''run'' # tb0)))
     \<and> format_frame (Frame file line name) =
          ''  File "'' @ file @ ''", line '' @ show_nat line @ '', in '' @ name @ ''\<newline>''\<close>
proof -
  let ?w = \<open>lint_warning (Some F) (Some (e, Frame ''runner.py'' 94 ''run'' # tb0))\<close>
  let ?tr = \<open>format_exc (Some (e, Frame ''runner.py'' 94 ''run'' # tb0))\<close>
  have pre: "SequentialRunner_run R pre fix = (map Yield (results_of R fix pre), None)"
    using others by (intro seq_run_clean) simp
  have post: "SequentialRunner_run R post fix = (map Yield (results_of R fix post), None)"
    using others by (intro seq_run_clean) simp
  have h: "handle_lint_path_exception (Some F) (e, Frame ''runner.py'' 94 ''run'' # tb0)
      = (Inr (LogWarning ?w) :: raised + 'f effect)"
    using not_io by (simp add: handle_lint_path_exception_def)
  have mid: "SequentialRunner_run R (F # post) fix
      = (LogWarning ?w # map Yield (results_of R fix post), None)"
    using seq_run_failing_unit [OF fails ex, of post]
    by (simp add: h post del: SequentialRunner_run.simps)
  have run: "SequentialRunner_run R (pre @ F # post) fix =
           (map Yield (results_of R fix pre) @ LogWarning ?w # map Yield (results_of R fix post), None)"
    by (simp add: seq_run_append [of R pre "F # post"] pre mid del: SequentialRunner_run.simps)
  have y: "yielded (fst (SequentialRunner_run R (pre @ F # post) fix))
           = results_of R fix pre @ results_of R fix post"
    using yielded_map_Yield [of "results_of R fix post" "[]"]
    by (simp add: run yielded_map_Yield)
  have len: "length (results_of R fix pre) = length pre" "length (results_of R fix post) = length post"
    using others by (simp_all add: results_of_clean_length)
  have w: "warnings (fst (SequentialRunner_run R (pre @ F # post) fix)) = [?w]"
    using warnings_map_Yield [of "results_of R fix post" "[]"]
    by (simp add: run warnings_map_Yield)
  have lit: \<open>?w =
          ''Unable to lint '' @ F @ '' due to an internal error. Please report this as an issue with your query's contents and stacktrace below!\<newline>To hide this warning, add the failing file to .sqlfluffignore\<newline>''
          @ ''Traceback (most recent call last):\<newline>''
          @ ''  File "runner.py", line 94, in run\<newline>''
          @ concat (map format_frame tb0)
          @ exc_name (etype e) @ (if emsg e = [] then [] else '': '' @ emsg e) @ ''\<newline>''\<close>
    unfolding lint_warning_text format_exc_text by simp
  have tr_in: "sublist ?tr ?w"
    using lint_warning_parts [of F "Some (e, Frame ''runner.py'' 94 ''run'' # tb0)"]
    by (simp add: suffix_sublist)
  have head: \<open>sublist ''Traceback (most recent call last):\<newline>  File "runner.py", line 94, in run\<newline>'' ?tr\<close>
  proof -
    have \<open>?tr = [] @ ''Traceback (most recent call last):\<newline>  File "runner.py", line 94, in run\<newline>''
        @ (concat (map format_frame tb0)
           @ exc_name (etype e) @ (if emsg e = [] then [] else '': '' @ emsg e) @ ''\<newline>'')\<close>
      unfolding format_exc_text by simp
    then show ?thesis unfolding sublist_def by blast
  qed
  have parts: "sublist (exc_name (etype e)) ?tr" "sublist (emsg e) ?tr"
      "\<forall>fr\<in>set tb0. sublist (format_frame fr) ?tr"
    using format_exc_parts [of e "Frame ''runner.py'' 94 ''run'' # tb0"] by simp_all
  have in_w: "sublist x ?tr \<Longrightarrow> sublist x ?w" for x
    using tr_in by (rule sublist_order.order_trans [rotated])
  have c1: "SequentialRunner_run R (pre @ F # post) fix =
           (map Yield (results_of R fix pre) @ LogWarning ?w # map Yield (results_of R fix post), None)
     \<and> yielded (fst (SequentialRunner_run R (pre @ F # post) fix))
           = results_of R fix pre @ results_of R fix post
     \<and> length (yielded (fst (SequentialRunner_run R (pre @ F # post) fix)))
           = length (pre @ F # post) - 1
     \<and> warnings (fst (SequentialRunner_run R (pre @ F # post) fix)) = [?w]
     \<and> sublist F ?w \<and> suffix ?tr ?w \<and> ?tr \<noteq> []"
    using run y w len lint_warning_parts [of F] format_exc_nonempty by simp
  have c2: \<open>sublist ''Traceback (most recent call last):\<newline>  File "runner.py", line 94, in run\<newline>'' ?w\<close>
    using head by (rule in_w)
  have c3: "\<forall>fr\<in>set tb0. sublist (format_frame fr) ?w"
    using parts(3) in_w by blast
  have c4: "sublist (exc_name (etype e)) ?w" "sublist (emsg e) ?w"
    using parts(1,2) in_w by blast+
  show ?thesis
    using c1 lit c2 c3 c4 format_frame_text by blast
qed

lemma sample_outcomes:
  "lint_outcome (BaseRunner_init SequentialRunner sample_linter ''cfg'') False ''a.sql''
     = Inr (Inr \<lparr>path = ''a.sql'', violations = []\<rparr>)"
  "lint_outcome (BaseRunner_init SequentialRunner sample_linter ''cfg'') False ''c.sql''
     = Inr (Inr \<lparr>path = ''c.sql'', violations = []\<rparr>)"
  "lint_outcome (BaseRunner_init SequentialRunner sample_linter ''cfg'') False ''bad.sql''
     = Inr (Inl (\<lparr>etype = ValueError, emsg = ''boom''\<rparr>, [Frame ''linter.py'' 1 ''lint_rendered'']))"
  "lint_outcome (BaseRunner_init SequentialRunner sample_linter ''cfg'') False ''locked.sql''
     = Inr (Inl (\<lparr>etype = OSError, emsg = ''denied''\<rparr>, [Frame ''linter.py'' 2 ''lint_rendered'']))"
  by (simp_all add: lint_outcome_def iter_partials_step_def iter_rendered_step_def call_partial_def
      sample_linter_def BaseRunner_init_def)

theorem sequential_run_skips_failing_file_witness:
  \<open>yielded (fst (SequentialRunner_run (BaseRunner_init SequentialRunner sample_linter ''cfg'')
       [''a.sql'', ''bad.sql'', ''c.sql''] False))
     = [\<lparr>path = ''a.sql'', violations = []\<rparr>, \<lparr>path = ''c.sql'', violations = []\<rparr>]
   \<and> warnings (fst (SequentialRunner_run (BaseRunner_init SequentialRunner sample_linter ''cfg'')
       [''a.sql'', ''bad.sql'', ''c.sql''] False))
     = [lint_warning (Some ''bad.sql'')
          (Some (\<lparr>etype = ValueError, emsg = ''boom''\<rparr>,
                 [Frame ''runner.py'' 94 ''run'', Frame ''linter.py'' 1 ''lint_rendered'']))]
   \<and> snd (SequentialRunner_run (BaseRunner_init SequentialRunner sample_linter ''cfg'')
       [''a.sql'', ''bad.sql'', ''c.sql''] False) = None
   \<and> warnings (fst (SequentialRunner_run (BaseRunner_init SequentialRunner sample_linter ''cfg'')
       [''a.sql'', ''bad.sql'', ''c.sql''] False))
     = [''Unable to lint bad.sql due to an internal error. Please report this as an issue with your query's contents and stacktrace below!\<newline>To hide this warning, add the failing file to .sqlfluffignore\<newline>Traceback (most recent call last):\<newline>  File "runner.py", line 94, in run\<newline>  File "linter.py", line 1, in lint_rendered\<newline>ValueError: boom\<newline>'']\<close>
proof -
  let ?R = "BaseRunner_init SequentialRunner sample_linter ''cfg''"
  have others: "\<forall>f\<in>set [''a.sql''] \<union> set [''c.sql'']. lints_cleanly ?R False f"
    by (simp add: lints_cleanly_def sample_outcomes)
  have ex: "isinstance \<lparr>etype = ValueError, emsg = ''boom''\<rparr> Exception"
    and not_io: "\<not> isinstance \<lparr>etype = ValueError, emsg = ''boom''\<rparr> IOError"
    by (simp_all add: isinstance_def)
  have r: "results_of ?R False [''a.sql''] = [\<lparr>path = ''a.sql'', violations = []\<rparr>]"
      "results_of ?R False [''c.sql''] = [\<lparr>path = ''c.sql'', violations = []\<rparr>]"
    by (simp_all add: results_of_def sample_outcomes)
  have fr: \<open>format_frame (Frame ''linter.py'' 1 ''lint_rendered'')
      = ''  File "linter.py", line 1, in lint_rendered\<newline>''\<close>
    by (simp add: format_frame_def dquote_def show_nat.simps digit_char_def)
  note T = sequential_run_skips_failing_file [OF others sample_outcomes(3) ex not_io,
      of "[]" 0 "[]"]
  have y: "yielded (fst (SequentialRunner_run ?R [''a.sql'', ''bad.sql'', ''c.sql''] False))
      = [\<lparr>path = ''a.sql'', violations = []\<rparr>, \<lparr>path = ''c.sql'', violations = []\<rparr>]"
    using T [THEN conjunct2, THEN conjunct1]
    by (simp add: r del: SequentialRunner_run.simps)
  have w: "warnings (fst (SequentialRunner_run ?R [''a.sql'', ''bad.sql'', ''c.sql''] False))
      = [lint_warning (Some ''bad.sql'')
          (Some (\<lparr>etype = ValueError, emsg = ''boom''\<rparr>,
                 [Frame ''runner.py'' 94 ''run'', Frame ''linter.py'' 1 ''lint_rendered'']))]"
    using T [THEN conjunct2, THEN conjunct2, THEN conjunct2, THEN conjunct1]
    by (simp del: SequentialRunner_run.simps)
  have n: "snd (SequentialRunner_run ?R [''a.sql'', ''bad.sql'', ''c.sql''] False) = None"
    using T [THEN conjunct1]
    by (simp del: SequentialRunner_run.simps)
  have lit: \<open>lint_warning (Some ''bad.sql'')
          (Some (\<lparr>etype = ValueError, emsg = ''boom''\<rparr>,
                 [Frame ''runner.py'' 94 ''run'', Frame ''linter.py'' 1 ''lint_rendered'']))
      = ''Unable to lint bad.sql due to an internal error. Please report this as an issue with your query's contents and stacktrace below!\<newline>To hide this warning, add the failing file to .sqlfluffignore\<newline>Traceback (most recent call last):\<newline>  File "runner.py", line 94, in run\<newline>  File "linter.py", line 1, in lint_rendered\<newline>ValueError: boom\<newline>''\<close>
    using T [THEN conjunct2, THEN conjunct2, THEN conjunct2, THEN conjunct2, THEN conjunct2,
        THEN conjunct2, THEN conjunct2, THEN conjunct1]
    by (simp add: fr fr [unfolded One_nat_def])
  show ?thesis
    using y w n lit by (simp del: SequentialRunner_run.simps)
qed

text \<open>
  C5. In a sequential run, when the files before \<open>F\<close> are processed without an exception
  leaving the run and the deferred computation of \<open>F\<close> raises an \<open>IOError\<close> \<open>e\<close>, the run
  raises \<open>e\<close> itself to its caller: what it yielded and logged is what the files before
  \<open>F\<close> yielded and logged, whatever files follow, and no warning is logged for \<open>F\<close>.
\<close>

theorem sequential_run_reraises_io_error:
  assumes before: "SequentialRunner_run (R :: ('c, 's, 'f) runner) pre fix = (t, None)"
    and fails: "lint_outcome R fix F = Inr (Inl (e, tb0))"
    and io: "isinstance e IOError"
  shows "SequentialRunner_run R (pre @ F # post) fix =
           (t, Some (e, Frame ''runner.py'' 96 ''run''
                        # Frame ''runner.py'' 78 ''_handle_lint_path_exception''
                        # Frame ''runner.py'' 94 ''run'' # tb0))
     \<and> map_option fst (snd (SequentialRunner_run R (pre @ F # post) fix)) = Some e
     \<and> yielded (fst (SequentialRunner_run R (pre @ F # post) fix)) = yielded t
     \<and> warnings (fst (SequentialRunner_run R (pre @ F # post) fix)) = warnings t"
proof -
  have ex: "isinstance e Exception"
    using io by (rule isinstance_IOError_Exception)
  have h: "handle_lint_path_exception (Some F) (e, Frame ''runner.py'' 94 ''run'' # tb0)
      = (Inl (e, Frame ''runner.py'' 78 ''_handle_lint_path_exception''
                 # Frame ''runner.py'' 94 ''run'' # tb0) :: raised + 'f effect)"
    using io by (simp add: handle_lint_path_exception_def reach_def)
  have mid: "SequentialRunner_run R (F # post) fix =
      ([], Some (e, Frame ''runner.py'' 96 ''run''
                        # Frame ''runner.py'' 78 ''_handle_lint_path_exception''
                        # Frame ''runner.py'' 94 ''run'' # tb0))"
    using seq_run_failing_unit [OF fails ex, of post]
    by (simp add: h reach_def del: SequentialRunner_run.simps)
  have run: "SequentialRunner_run R (pre @ F # post) fix =
           (t, Some (e, Frame ''runner.py'' 96 ''run''
                        # Frame ''runner.py'' 78 ''_handle_lint_path_exception''
                        # Frame ''runner.py'' 94 ''run'' # tb0))"
    by (simp add: seq_run_append [of R pre "F # post"] before mid del: SequentialRunner_run.simps)
  show ?thesis
    by (simp add: run)
qed

lemma sample_run_before:
  "SequentialRunner_run (BaseRunner_init SequentialRunner sample_linter ''cfg'') [''a.sql''] False
     = ([Yield \<lparr>path = ''a.sql'', violations = []\<rparr>], None)"
  by (simp add: iter_partials_step_def iter_rendered_step_def call_partial_def
      sample_linter_def BaseRunner_init_def)

theorem sequential_run_reraises_io_error_witness:
  "SequentialRunner_run (BaseRunner_init SequentialRunner sample_linter ''cfg'')
       [''a.sql'', ''locked.sql'', ''c.sql''] False
     = ([Yield \<lparr>path = ''a.sql'', violations = []\<rparr>],
        Some (\<lparr>etype = OSError, emsg = ''denied''\<rparr>,
              [Frame ''runner.py'' 96 ''run'', Frame ''runner.py'' 78 ''_handle_lint_path_exception'',
               Frame ''runner.py'' 94 ''run'', Frame ''linter.py'' 2 ''lint_rendered'']))"
proof -
  have io: "isinstance \<lparr>etype = OSError, emsg = ''denied''\<rparr> IOError"
    by (simp add: isinstance_def)
  show ?thesis
    using sequential_run_reraises_io_error [OF sample_run_before sample_outcomes(4) io, of "[''c.sql'']"]
    by (simp del: SequentialRunner_run.simps)
qed



lemma parallel_run_without_workers:
  "r_parallel R = Some n \<Longrightarrow> n < 1 \<Longrightarrow>
     ParallelRunner_run R fix evs =
       ([], Some (\<lparr>etype = ValueError, emsg = ''Number of processes must be at least 1''\<rparr>,
                  [Frame ''runner.py'' 120 ''run'', Frame ''runner.py'' 162 ''_create_pool'']))"
  by (simp add: ParallelRunner_run_def create_pool_def POOL_TYPE_def reach_def)



end
